theory Spec2Isabelle
  imports Complex_Main "HOL-Library.Sublist" "HOL-Library.List_Lexorder" "HOL-Library.Char_ord"
begin

section \<open>GitHub Actions: expressions, steps and jobs\<close>

text \<open>
  The repository holds two workflow files and three example notebooks (two of them in one
  file); of the notebooks, the cells of the thermal conduction notebook that compare the
  simulation with the analytical solution are embedded, at the end.
  A workflow is data that the GitHub Actions runner interprets, so the embedding has
  two layers: the runner's rules (how an \<^verbatim>\<open>if:\<close> expression is evaluated, how the
  steps of a job follow each other), and the workflows themselves, each step translated to
  a function on the state of the job. The tools that the steps call (git, conda, pip,
  pytest, twine) are not part of the repository: where a property depends on one, what the
  tool does is written down as far as the property needs it, and whether its commands
  succeed is an input of the run.

  The contexts an expression reads: \<^verbatim>\<open>github.event.ref\<close>,
  \<^verbatim>\<open>github.event.head_commit.message\<close> (null when the push has no head commit),
  \<^verbatim>\<open>env.*\<close>, \<^verbatim>\<open>matrix.*\<close> and \<^verbatim>\<open>runner.os\<close>.
\<close>

record gh_context =
  event_ref :: string
  head_commit_message :: "string option"
  ctx_env :: "string \<rightharpoonup> string"
  ctx_matrix :: "string \<rightharpoonup> string"
  runner_os :: string

text \<open>A null value is cast to the empty string where a function expects a string.\<close>

definition to_string :: "string option \<Rightarrow> string" where
  "to_string v = (case v of None \<Rightarrow> [] | Some s \<Rightarrow> s)"

text \<open>
  The runner's \<^verbatim>\<open>contains\<close> and \<^verbatim>\<open>startsWith\<close> are not case sensitive. Strings
  are byte strings here, and the case of the ASCII letters is folded.
\<close>

definition to_lower :: "char \<Rightarrow> char" where
  "to_lower c =
     (case map_of (zip ''ABCDEFGHIJKLMNOPQRSTUVWXYZ'' ''abcdefghijklmnopqrstuvwxyz'') c of
        None \<Rightarrow> c
      | Some l \<Rightarrow> l)"

definition gha_contains :: "string \<Rightarrow> string \<Rightarrow> bool" where
  "gha_contains search item = sublist (map to_lower item) (map to_lower search)"

definition gha_startsWith :: "string \<Rightarrow> string \<Rightarrow> bool" where
  "gha_startsWith search_string search_value =
     prefix (map to_lower search_value) (map to_lower search_string)"

text \<open>
  A step has a name, an optional \<^verbatim>\<open>if:\<close> and an effect on the state of the job, which
  also says whether the step succeeded. A step runs when no earlier step has failed and its
  \<^verbatim>\<open>if:\<close>, when it has one, holds: an expression without a status function is guarded
  by \<^verbatim>\<open>success()\<close>, and so is a step without \<^verbatim>\<open>if:\<close>.
\<close>

record 's step =
  step_name :: string
  step_if :: "(gh_context \<Rightarrow> bool) option"
  step_run :: "'s \<Rightarrow> 's \<times> bool"

record 's job_run =
  run_state :: 's
  run_ok :: bool
  run_executed :: "string list"

fun run_steps :: "('s \<Rightarrow> gh_context) \<Rightarrow> 's step list \<Rightarrow> 's job_run \<Rightarrow> 's job_run" where
  "run_steps cx [] r = r"
| "run_steps cx (p # ps) r =
     (if run_ok r \<and> (case step_if p of None \<Rightarrow> True | Some c \<Rightarrow> c (cx (run_state r)))
      then (case step_run p (run_state r) of
              (s', b) \<Rightarrow>
                run_steps cx ps
                  \<lparr>run_state = s', run_ok = b, run_executed = run_executed r @ [step_name p]\<rparr>)
      else run_steps cx ps r)"

definition start_job :: "'s \<Rightarrow> 's job_run" where
  "start_job s = \<lparr>run_state = s, run_ok = True, run_executed = []\<rparr>"

subsection \<open>The shell of a \<^verbatim>\<open>run:\<close> step\<close>

text \<open>
  The runner replaces every \<^verbatim>\<open>${{ }}\<close> expression of a script by its value, as
  text, and gives the result to bash. A literal block (\<^verbatim>\<open>run: |\<close>) keeps its lines,
  each ended by a newline; a plain scalar that runs over several lines is folded, its lines
  joined by single blanks, and so is the output of a command substitution that the shell
  splits into words and \<^verbatim>\<open>echo\<close> prints.
\<close>

definition yaml_literal :: "string list \<Rightarrow> string" where
  "yaml_literal ls = concat (map (\<lambda>l. l @ [CHR 0x0A]) ls)"

fun join_blank :: "string list \<Rightarrow> string" where
  "join_blank [] = []"
| "join_blank [l] = l"
| "join_blank (l # ls) = l @ '' '' @ join_blank ls"

definition yaml_fold :: "string list \<Rightarrow> string" where
  "yaml_fold ls = join_blank ls"

definition cmd_subst :: "string list \<Rightarrow> string" where
  "cmd_subst ls = join_blank ls"

text \<open>
  The commands of a script, each the list of its words. Of the grammar of bash this has:
  blanks and tabs, which separate words; a newline or a \<^verbatim>\<open>;\<close>, which ends a command;
  single quotes, double quotes and the backslash, which quote and are removed (inside
  double quotes the backslash quotes only \<^verbatim>\<open>$\<close>, the backquote, the double quote,
  itself and the newline; a quoted newline after a backslash is removed with it); a
  \<^verbatim>\<open>#\<close> where a word would begin, which starts a comment up to the end of the line;
  and \<^verbatim>\<open>${IFS}\<close>, which gives a blank, a tab and a newline, and so splits the word
  where it is not quoted. Every other character stands for itself: the other expansions,
  assignments and operators of bash are not interpreted.

  The arguments of \<open>sh_lex\<close>: the quoting, whether a backslash quotes the next character,
  how many characters of an expansion are still to be passed over, the word read so far,
  whether it has begun, whether a token has begun (a \<^verbatim>\<open>#\<close> in the middle of a token
  starts no comment), the words of the command read so far, and the rest of the script.
\<close>

datatype quoting = Unquoted | Double_quoted | Single_quoted | Comment

definition end_word :: "string \<Rightarrow> bool \<Rightarrow> string list \<Rightarrow> string list" where
  "end_word w started cmd = (if started then cmd @ [w] else cmd)"

definition end_command :: "string list \<Rightarrow> string list list" where
  "end_command cmd = (if cmd = [] then [] else [cmd])"

fun sh_lex :: "quoting \<Rightarrow> bool \<Rightarrow> nat \<Rightarrow> string \<Rightarrow> bool \<Rightarrow> bool \<Rightarrow> string list \<Rightarrow> string \<Rightarrow>
    string list list" where
  "sh_lex q esc skip w started tok cmd [] = end_command (end_word w started cmd)"
| "sh_lex q esc skip w started tok cmd (c # cs) =
     (if 0 < skip then sh_lex q esc (skip - 1) w started tok cmd cs
      else if esc
        then (if c = CHR 0x0A then sh_lex q False 0 w started tok cmd cs
              else sh_lex q False 0 (w @ [c]) True True cmd cs)
      else (case q of
          Comment \<Rightarrow>
            (if c = CHR 0x0A
             then end_command cmd @ sh_lex Unquoted False 0 [] False False [] cs
             else sh_lex Comment False 0 w started tok cmd cs)
        | Single_quoted \<Rightarrow>
            (if c = CHR 0x27 then sh_lex Unquoted False 0 w True True cmd cs
             else sh_lex Single_quoted False 0 (w @ [c]) True True cmd cs)
        | Double_quoted \<Rightarrow>
            (if c = CHR 0x22 then sh_lex Unquoted False 0 w True True cmd cs
             else if c = CHR 0x5C \<and> cs \<noteq> [] \<and>
                     hd cs \<in> set [CHR ''$'', CHR 0x60, CHR 0x22, CHR 0x5C, CHR 0x0A]
               then sh_lex Double_quoted True 0 w True True cmd cs
             else if prefix ''${IFS}'' (c # cs)
               then sh_lex Double_quoted False 5 (w @ [CHR '' '', CHR 0x09, CHR 0x0A]) True True cmd cs
             else sh_lex Double_quoted False 0 (w @ [c]) True True cmd cs)
        | Unquoted \<Rightarrow>
            (if c = CHR 0x5C then sh_lex Unquoted True 0 w started tok cmd cs
             else if c = CHR 0x22 then sh_lex Double_quoted False 0 w True True cmd cs
             else if c = CHR 0x27 then sh_lex Single_quoted False 0 w True True cmd cs
             else if c = CHR '' '' \<or> c = CHR 0x09
               then sh_lex Unquoted False 0 [] False False (end_word w started cmd) cs
             else if c = CHR 0x0A \<or> c = CHR '';''
               then end_command (end_word w started cmd) @
                    sh_lex Unquoted False 0 [] False False [] cs
             else if c = CHR ''#'' \<and> \<not> tok then sh_lex Comment False 0 [] False False cmd cs
             else if prefix ''${IFS}'' (c # cs)
               then sh_lex Unquoted False 5 [] False True (end_word w started cmd) cs
             else sh_lex Unquoted False 0 (w @ [c]) True True cmd cs)))"

definition sh_commands :: "string \<Rightarrow> string list list" where
  "sh_commands script = sh_lex Unquoted False 0 [] False False [] script"

section \<open>The Examples workflow\<close>

text \<open>
  \<^verbatim>\<open>on: [push]\<close>, one job \<^verbatim>\<open>build\<close>, whose run for one entry of the matrix
  is modelled. The job's \<^verbatim>\<open>if:\<close> is
  \<^verbatim>\<open>(! contains(github.event.head_commit.message, 'ci min')) &&
  (! contains(github.event.head_commit.message, 'ci skip'))\<close>.
\<close>

definition build_if :: "gh_context \<Rightarrow> bool" where
  "build_if c =
     (\<not> gha_contains (to_string (head_commit_message c)) ''ci min'' \<and>
      \<not> gha_contains (to_string (head_commit_message c)) ''ci skip'')"

text \<open>The strategy matrix: the job runs once for each combination of its entries.\<close>

definition matrix_python_version :: "string list" where
  "matrix_python_version = [''3.7'']"

definition matrix_operating_system :: "string list" where
  "matrix_operating_system = [''ubuntu-latest'']"

definition matrix_jobs :: "(string \<times> string) list" where
  "matrix_jobs = List.product matrix_python_version matrix_operating_system"

definition runner_os_of :: "string \<Rightarrow> string" where
  "runner_os_of label =
     (if prefix ''ubuntu'' label then ''Linux''
      else if prefix ''windows'' label then ''Windows''
      else ''macOS'')"

text \<open>
  What a run is given: the push event, the hash of the requirement files of the pushed
  commit (\<^verbatim>\<open>hashFiles('**/conda_requirements.txt')\<close>), the packages that the conda
  installs need in the package directory, and whether the external commands of each step
  succeed. The cache outlives the run: it maps a key to the directory saved under it. (The
  service keeps the entries by branch; the store here is what the branch of the run reads
  and writes.)
\<close>

record ci_input =
  in_ref :: string
  in_message :: "string option"
  in_hash :: string
  in_needed :: "string list"
  in_cmd_ok :: "string \<Rightarrow> bool"

type_synonym cache_store = "string \<rightharpoonup> string list"

record ci_state =
  ci_ctx :: gh_context
  setup_python :: "string option"
  conda_python :: "string option"
  conda_pkgs_dir :: "string list"
  cache_hit :: bool
  shell_log :: "string list list"

definition ci_context :: "ci_input \<Rightarrow> string \<times> string \<Rightarrow> gh_context" where
  "ci_context i m =
     \<lparr>event_ref = in_ref i, head_commit_message = in_message i, ctx_env = Map.empty,
      ctx_matrix = [''python-version'' \<mapsto> fst m, ''operating-system'' \<mapsto> snd m],
      runner_os = runner_os_of (snd m)\<rparr>"

definition ci_start :: "ci_input \<Rightarrow> string \<times> string \<Rightarrow> ci_state" where
  "ci_start i m =
     \<lparr>ci_ctx = ci_context i m, setup_python = None, conda_python = None,
      conda_pkgs_dir = [], cache_hit = False, shell_log = []\<rparr>"

text \<open>
  The key of the step \<^verbatim>\<open>Cache conda\<close>:
  \<^verbatim>\<open>${{ runner.os }}-conda-${{ env.CACHE_NUMBER }}-${{ hashFiles(..) }}\<close>, with
  \<^verbatim>\<open>CACHE_NUMBER: 0\<close> in the step's own \<^verbatim>\<open>env:\<close>.
\<close>

definition cache_step_env :: "(string \<times> string) list" where
  "cache_step_env = [(''CACHE_NUMBER'', ''0'')]"

definition cache_key :: "gh_context \<Rightarrow> string \<Rightarrow> string" where
  "cache_key c h =
     runner_os c @ ''-conda-'' @
     to_string ((ctx_env c ++ map_of cache_step_env) ''CACHE_NUMBER'') @ ''-'' @ h"

text \<open>
  \<^verbatim>\<open>actions/cache@v1\<close> with \<^verbatim>\<open>path: ~/conda_pkgs_dir\<close>: the step restores the
  directory saved under the key, if there is one. After the steps of a job that succeeded
  and had no hit, the action saves the directory under the key.
\<close>

definition cache_restore :: "cache_store \<Rightarrow> string \<Rightarrow> ci_state \<Rightarrow> ci_state" where
  "cache_restore store h s =
     (case store (cache_key (ci_ctx s) h) of
        None \<Rightarrow> s
      | Some files \<Rightarrow> s\<lparr>conda_pkgs_dir := files, cache_hit := True\<rparr>)"

definition cache_save :: "cache_store \<Rightarrow> string \<Rightarrow> ci_state job_run \<Rightarrow> cache_store" where
  "cache_save store h r =
     (if run_ok r \<and> \<not> cache_hit (run_state r)
      then store(cache_key (ci_ctx (run_state r)) h \<mapsto> conda_pkgs_dir (run_state r))
      else store)"

text \<open>The two scripts, as the workflow has them.\<close>

definition install_script :: "string list" where
  "install_script =
     [''conda install --file requirements/conda_requirements.txt'',
      ''conda install --file requirements/test_requirements.txt'',
      ''conda install pyamg'',
      ''# Install OpenPNM from the checked-out branch'',
      ''pip install -e .'',
      ''conda install porespy  # for notebook testing'']"

definition test_script :: "string list" where
  \<open>test_script =
     [''pytest --nbval examples/'',
      ''--ignore="examples/paper_recreations/Blunt et al. (2013)"'',
      ''--ignore="examples/paper_recreations/Wu et al. (2010)"'']\<close>

text \<open>conda fetches into the package directory the packages that are not there yet.\<close>

definition conda_fetch :: "string list \<Rightarrow> string list \<Rightarrow> string list" where
  "conda_fetch needed dir = dir @ filter (\<lambda>p. p \<notin> set dir) (remdups needed)"

definition examples_steps :: "ci_input \<Rightarrow> string \<times> string \<Rightarrow> cache_store \<Rightarrow>
    ci_state step list" where
  "examples_steps i m store =
     [\<lparr>step_name = ''actions/checkout@v2'', step_if = None,
       step_run = (\<lambda>s. (s, in_cmd_ok i ''actions/checkout@v2''))\<rparr>,
      \<lparr>step_name = ''Set up Python '' @ fst m, step_if = None,
       step_run = (\<lambda>s. (s\<lparr>setup_python := ctx_matrix (ci_ctx s) ''python-version''\<rparr>,
                         in_cmd_ok i (''Set up Python '' @ fst m)))\<rparr>,
      \<lparr>step_name = ''Cache conda'', step_if = None,
       step_run = (\<lambda>s. (cache_restore store (in_hash i) s, in_cmd_ok i ''Cache conda''))\<rparr>,
      \<lparr>step_name = ''Set up conda'', step_if = None,
       step_run = (\<lambda>s. (s\<lparr>conda_python := ctx_matrix (ci_ctx s) ''python-version''\<rparr>,
                         in_cmd_ok i ''Set up conda''))\<rparr>,
      \<lparr>step_name = ''Install dependencies (conda)'', step_if = None,
       step_run = (\<lambda>s. (s\<lparr>shell_log := shell_log s @ sh_commands (yaml_literal install_script),
                            conda_pkgs_dir := conda_fetch (in_needed i) (conda_pkgs_dir s)\<rparr>,
                         in_cmd_ok i ''Install dependencies (conda)''))\<rparr>,
      \<lparr>step_name = ''Running tests'', step_if = None,
       step_run = (\<lambda>s. (s\<lparr>shell_log := shell_log s @ sh_commands (yaml_fold test_script)\<rparr>,
                         in_cmd_ok i ''Running tests''))\<rparr>]"

text \<open>
  The step \<^verbatim>\<open>Set up Python ${{ matrix.python-version }}\<close> has the version in its
  name. One run of the job for a matrix entry: skipped (\<open>None\<close>) when the job's \<^verbatim>\<open>if:\<close> is
  false; otherwise the steps run and the cache action's saving follows them.
\<close>

definition run_build :: "ci_input \<Rightarrow> string \<times> string \<Rightarrow> cache_store \<Rightarrow>
    ci_state job_run option \<times> cache_store" where
  "run_build i m store =
     (if build_if (ci_context i m)
      then (let r = run_steps ci_ctx (examples_steps i m store) (start_job (ci_start i m))
            in (Some r, cache_save store (in_hash i) r))
      else (None, store))"

text \<open>
  The paths that a pytest command line excludes from collection: the values of its
  \<^verbatim>\<open>--ignore=\<close> arguments.
\<close>

definition pytest_ignored :: "string list \<Rightarrow> string list" where
  "pytest_ignored argv =
     map (drop (length ''--ignore='')) (filter (prefix ''--ignore='') argv)"

section \<open>The deploy workflow\<close>

text \<open>
  \<^verbatim>\<open>on: push: tags: '*'\<close>, one job \<^verbatim>\<open>deploy\<close> on \<^verbatim>\<open>ubuntu-latest\<close>,
  whose run is modelled. The names of two steps carry a pictograph in the workflow; it is
  left out here.

  What a run is given: the pushed ref, the tags of the remote repository, the
  \<^verbatim>\<open>__version__\<close> string in the tree of each ref that exists, the order that
  \<^verbatim>\<open>sort -V\<close> sorts by, whether the external commands of each step succeed, and the
  files that the package index holds.
\<close>

datatype dist_format = Sdist | Bdist_wheel

type_synonym dist_file = "dist_format \<times> string"

record deploy_input =
  push_ref :: string
  remote_tags :: "string list"
  tree_version :: "string \<rightharpoonup> string"
  version_le :: "string \<Rightarrow> string \<Rightarrow> bool"
  cmd_ok :: "string \<Rightarrow> bool"
  pypi_files :: "dist_file list"

record deploy_state =
  d_ctx :: gh_context
  workspace :: "string option"
  local_tags :: "string list"
  origin_tags :: "string list"
  dist_files :: "dist_file list"
  pypi :: "dist_file list"

definition deploy_start :: "deploy_input \<Rightarrow> deploy_state" where
  "deploy_start i =
     \<lparr>d_ctx = \<lparr>event_ref = push_ref i, head_commit_message = None, ctx_env = Map.empty,
               ctx_matrix = Map.empty, runner_os = runner_os_of ''ubuntu-latest''\<rparr>,
      workspace = None, local_tags = [], origin_tags = remote_tags i, dist_files = [],
      pypi = pypi_files i\<rparr>"

text \<open>The workflow command \<^verbatim>\<open>echo ::set-env name=N::V\<close>.\<close>

definition set_env :: "string \<Rightarrow> string \<Rightarrow> deploy_state \<Rightarrow> deploy_state" where
  "set_env n v s = s\<lparr>d_ctx := (d_ctx s)\<lparr>ctx_env := (ctx_env (d_ctx s))(n \<mapsto> v)\<rparr>\<rparr>"

definition get_env :: "deploy_state \<Rightarrow> string \<Rightarrow> string" where
  "get_env s n = to_string (ctx_env (d_ctx s) n)"

text \<open>
  \<^verbatim>\<open>actions/checkout@v2\<close> checks out the ref named by \<^verbatim>\<open>with: ref:\<close>, and the
  ref of the event when there is none. The workspace is known by the version string of
  its tree. The step fails when the ref does not exist.
\<close>

definition checkout_with :: "(string \<times> string) list" where
  "checkout_with = [(''ref'', ''release'')]"

definition actions_checkout :: "deploy_input \<Rightarrow> (string \<times> string) list \<Rightarrow>
    deploy_state \<Rightarrow> deploy_state \<times> bool" where
  "actions_checkout i wth s =
     (let r = (case map_of wth ''ref'' of None \<Rightarrow> event_ref (d_ctx s) | Some b \<Rightarrow> b)
      in case tree_version i r of
           None \<Rightarrow> (s, False)
         | Some v \<Rightarrow> (s\<lparr>workspace := Some v\<rparr>, cmd_ok i ''actions/checkout@v2''))"

text \<open>
  \<^verbatim>\<open>git tag | sort -V | tail -1\<close>: the tags sorted by the version order, which
  is an input of the run, and the last line of that; the command substitution then gives
  that tag, or the empty string when there is no tag.
\<close>

fun insert_le :: "('a \<Rightarrow> 'a \<Rightarrow> bool) \<Rightarrow> 'a \<Rightarrow> 'a list \<Rightarrow> 'a list" where
  "insert_le le x [] = [x]"
| "insert_le le x (y # ys) = (if le x y then x # y # ys else y # insert_le le x ys)"

definition sort_V :: "(string \<Rightarrow> string \<Rightarrow> bool) \<Rightarrow> string list \<Rightarrow> string list" where
  "sort_V le ls = foldr (insert_le le) ls []"

definition tail_1 :: "string list \<Rightarrow> string list" where
  "tail_1 ls = (if ls = [] then [] else [last ls])"

text \<open>
  The step \<^verbatim>\<open>Set env variables\<close>: \<^verbatim>\<open>git fetch --all --tags\<close>, then \<^verbatim>\<open>TAG\<close>
  and \<^verbatim>\<open>VER\<close>, the latter printed by Python from \<^verbatim>\<open>__version__\<close> of the
  workspace.
\<close>

definition set_env_variables :: "deploy_input \<Rightarrow> deploy_state \<Rightarrow> deploy_state \<times> bool" where
  "set_env_variables i s =
     (if cmd_ok i ''Set env variables''
      then (let s1 = s\<lparr>local_tags := origin_tags s\<rparr>;
                s2 = set_env ''TAG'' (cmd_subst (tail_1 (sort_V (version_le i) (local_tags s1)))) s1;
                s3 = set_env ''VER'' (to_string (workspace s2)) s2
            in (s3, True))
      else (s, False))"

text \<open>
  The step \<^verbatim>\<open>Set env variables (for tag mismatch)\<close>:
  \<^verbatim>\<open>if [ "${TAG//v}" = "$VER" ]\<close> sets \<^verbatim>\<open>TAG_MISMATCH\<close> to \<^verbatim>\<open>false\<close>, the
  other branch to \<^verbatim>\<open>true\<close>. \<^verbatim>\<open>${TAG//v}\<close> is \<^verbatim>\<open>TAG\<close> with every
  \<^verbatim>\<open>v\<close> deleted. Both branches end in an \<^verbatim>\<open>echo\<close>: the step succeeds.
\<close>

definition delete_all_char :: "char \<Rightarrow> string \<Rightarrow> string" where
  "delete_all_char x s = filter (\<lambda>c. c \<noteq> x) s"

definition set_tag_mismatch :: "deploy_state \<Rightarrow> deploy_state \<times> bool" where
  "set_tag_mismatch s =
     (if delete_all_char CHR ''v'' (get_env s ''TAG'') = get_env s ''VER''
      then (set_env ''TAG_MISMATCH'' ''false'' s, True)
      else (set_env ''TAG_MISMATCH'' ''true'' s, True))"

text \<open>
  \<^verbatim>\<open>python setup.py sdist bdist_wheel\<close> builds the two distributions of the workspace,
  each at the version of the workspace.
\<close>

definition build_distribution :: "deploy_input \<Rightarrow> deploy_state \<Rightarrow> deploy_state \<times> bool" where
  "build_distribution i s =
     (if cmd_ok i ''Build distribution''
      then (s\<lparr>dist_files := [(Sdist, to_string (workspace s)), (Bdist_wheel, to_string (workspace s))]\<rparr>,
            True)
      else (s, False))"

text \<open>
  \<^verbatim>\<open>pypa/gh-action-pypi-publish\<close> uploads the files of \<^verbatim>\<open>dist/\<close> with twine, and
  passes \<^verbatim>\<open>--skip-existing\<close> unless its input \<^verbatim>\<open>skip_existing\<close> is
  \<^verbatim>\<open>false\<close>, which is the input's default. The index refuses a file that it already
  holds: twine then stops with an error, or goes on to the next file when it was told to
  skip.
\<close>

definition publish_with :: "(string \<times> string) list" where
  "publish_with =
     [(''user'', ''__token__''), (''password'', ''${{ secrets.PYPI_TOKEN }}''),
      (''skip_existing'', ''true'')]"

definition publish_if :: "gh_context \<Rightarrow> bool" where
  "publish_if c =
     (gha_startsWith (event_ref c) ''refs/tags'' \<and>
      gha_contains (to_string (ctx_env c ''TAG_MISMATCH'')) ''false'')"

fun twine_upload :: "bool \<Rightarrow> dist_file list \<Rightarrow> dist_file list \<Rightarrow> dist_file list \<times> bool" where
  "twine_upload skip [] idx = (idx, True)"
| "twine_upload skip (f # fs) idx =
     (if f \<in> set idx then (if skip then twine_upload skip fs idx else (idx, False))
      else twine_upload skip fs (idx @ [f]))"

definition skip_existing_input :: "(string \<times> string) list \<Rightarrow> bool" where
  "skip_existing_input wth =
     (map to_lower (case map_of wth ''skip_existing'' of None \<Rightarrow> ''false'' | Some v \<Rightarrow> v)
        \<noteq> ''false'')"

definition pypi_publish :: "deploy_input \<Rightarrow> (string \<times> string) list \<Rightarrow>
    deploy_state \<Rightarrow> deploy_state \<times> bool" where
  "pypi_publish i wth s =
     (if cmd_ok i ''Publish distribution to PyPI''
      then (case twine_upload (skip_existing_input wth) (dist_files s) (pypi s) of
              (idx, b) \<Rightarrow> (s\<lparr>pypi := idx\<rparr>, b))
      else (s, False))"

text \<open>
  The step \<^verbatim>\<open>Install dependencies\<close>. Its script has the line
  \<^verbatim>\<open>echo ${{ github.event.ref }}\<close>: the ref of the event, here the argument of
  the script, is part of the text that bash reads. The workspace is a clone with one remote, and the checkout has left the
  token of the job in its configuration, so a \<^verbatim>\<open>git push\<close> in a script reaches the
  repository.

  \<^verbatim>\<open>git push --delete <remote> <ref>..\<close> (or \<^verbatim>\<open>-d\<close>) deletes the refs in the
  remote, and so does \<^verbatim>\<open>git push <remote> :<ref>\<close>, a refspec with no source. Of the
  refs of the remote the model has the tags: \<open>git_push_deletes\<close> gives the tags that a
  command deletes, which are none when the command is no such push.
\<close>

definition tag_of :: "string \<Rightarrow> string" where
  "tag_of r = (if prefix ''refs/tags/'' r then drop (length ''refs/tags/'') r else r)"

definition git_push_deletes :: "string list \<Rightarrow> string list" where
  "git_push_deletes argv =
     (if take 2 argv = [''git'', ''push'']
      then (let args = drop 2 argv;
                refs = tl (filter (\<lambda>a. \<not> prefix ''-'' a) args)
            in if ''--delete'' \<in> set args \<or> ''-d'' \<in> set args
               then map tag_of refs
               else map (\<lambda>r. tag_of (tl r)) (filter (prefix '':'') refs))
      else [])"

definition install_dependencies_script :: "string \<Rightarrow> string" where
  "install_dependencies_script ref =
     yaml_literal
       [''python -m pip install --upgrade pip'',
        ''pip install setuptools wheel twine'',
        ''echo '' @ ref,
        ''echo $TAG_MISMATCH'']"

definition install_dependencies :: "deploy_input \<Rightarrow> deploy_state \<Rightarrow> deploy_state \<times> bool" where
  "install_dependencies i s =
     (if cmd_ok i ''Install dependencies''
      then (s\<lparr>origin_tags :=
                 filter (\<lambda>t. t \<notin> set (concat (map git_push_deletes
                                   (sh_commands (install_dependencies_script (event_ref (d_ctx s)))))))
                   (origin_tags s)\<rparr>,
            True)
      else (s, False))"

definition deploy_steps :: "deploy_input \<Rightarrow> deploy_state step list" where
  "deploy_steps i =
     [\<lparr>step_name = ''actions/checkout@v2'', step_if = None,
       step_run = actions_checkout i checkout_with\<rparr>,
      \<lparr>step_name = ''Set up Python'', step_if = None,
       step_run = (\<lambda>s. (s, cmd_ok i ''Set up Python''))\<rparr>,
      \<lparr>step_name = ''Set env variables'', step_if = None,
       step_run = set_env_variables i\<rparr>,
      \<lparr>step_name = ''Set env variables (for tag mismatch)'', step_if = None,
       step_run = set_tag_mismatch\<rparr>,
      \<lparr>step_name = ''Install dependencies'', step_if = None,
       step_run = install_dependencies i\<rparr>,
      \<lparr>step_name = ''Build distribution'', step_if = None,
       step_run = build_distribution i\<rparr>,
      \<lparr>step_name = ''Publish distribution to PyPI'', step_if = Some publish_if,
       step_run = pypi_publish i publish_with\<rparr>]"

definition run_deploy :: "deploy_input \<Rightarrow> deploy_state job_run" where
  "run_deploy i = run_steps d_ctx (deploy_steps i) (start_job (deploy_start i))"

text \<open>
  The workflow keeps one more step, commented out and with the note that it is not a good
  idea: \<^verbatim>\<open>Delete tag if doesn't match with version\<close>, with
  \<^verbatim>\<open>if: contains(env.TAG_MISMATCH, 'true')\<close> and
  \<^verbatim>\<open>git push "${remote_repo}" :refs/tags/$TAG\<close>. It is no step of the job; this is what
  it would do.
\<close>

definition delete_tag_if :: "gh_context \<Rightarrow> bool" where
  "delete_tag_if c = gha_contains (to_string (ctx_env c ''TAG_MISMATCH'')) ''true''"

definition delete_tag :: "deploy_state \<Rightarrow> deploy_state \<times> bool" where
  "delete_tag s =
     (s\<lparr>origin_tags := filter (\<lambda>t. t \<noteq> get_env s ''TAG'') (origin_tags s)\<rparr>, True)"

definition commented_out_step :: "deploy_state step" where
  "commented_out_step =
     \<lparr>step_name = ''Delete tag if doesn't match with version'', step_if = Some delete_tag_if,
      step_run = delete_tag\<rparr>"

text \<open>The tag that the step \<^verbatim>\<open>Set env variables\<close> finds, as a function of the input.\<close>

definition gate_tag :: "deploy_input \<Rightarrow> string" where
  "gate_tag i = cmd_subst (tail_1 (sort_V (version_le i) (remote_tags i)))"

text \<open>
  The tags that the script of \<^verbatim>\<open>Install dependencies\<close> deletes, as a function of the
  input.
\<close>

definition tags_deleted :: "deploy_input \<Rightarrow> string list" where
  "tags_deleted i =
     concat (map git_push_deletes (sh_commands (install_dependencies_script (push_ref i))))"

section \<open>The thermal conduction notebook: the comparison with the analytical solution\<close>

text \<open>
  The cells of the notebook that compare the simulation with the closed form, over
  the reals (NumPy computes in binary floating point, which is not modelled):
  \<^verbatim>\<open>
  divs = [10, 50]
  sim = alg['pore.temperature'][pn.pores('internal')]
  temp_map = np.reshape(a=sim, newshape=divs)
  X = pn['pore.coords'][:, 0]
  Y = pn['pore.coords'][:, 1]
  soln = 30*np.sinh(np.pi*X/5)/np.sinh(np.pi/5)*np.sin(np.pi*Y/5) + 50
  soln = soln[pn.pores('internal')]
  soln = np.reshape(soln, (divs[0], divs[1]))
  diff = soln - temp_map
  print(f"Minimum error: {diff.min():.5f}, maximum error: {diff.max():.5f}")
  \<close>
  The network and the solver belong to OpenPNM: the coordinates of the pores, the indices
  of the internal pores and the computed temperatures are what the cells are given.
\<close>

record thermal_input =
  pore_coords :: "(real \<times> real) list"
  internal :: "nat list"
  pore_temperature :: "real list"

definition divs :: "nat \<times> nat" where
  "divs = (10, 50)"

definition soln_at :: "real \<Rightarrow> real \<Rightarrow> real" where
  "soln_at X Y = 30 * sinh (pi * X / 5) / sinh (pi / 5) * sin (pi * Y / 5) + 50"

text \<open>Indexing an array with an array of indices: an index out of range raises.\<close>

definition index_array :: "'a list \<Rightarrow> nat list \<Rightarrow> 'a list option" where
  "index_array a idx =
     (if \<forall>k \<in> set idx. k < length a then Some (map (\<lambda>k. a ! k) idx) else None)"

text \<open>\<^verbatim>\<open>np.reshape\<close> to rows and columns: it raises when the sizes differ.\<close>

fun rows_of :: "nat \<Rightarrow> nat \<Rightarrow> 'a list \<Rightarrow> 'a list list" where
  "rows_of 0 c a = []"
| "rows_of (Suc r) c a = take c a # rows_of r c (drop c a)"

definition reshape :: "nat \<times> nat \<Rightarrow> 'a list \<Rightarrow> 'a list list option" where
  "reshape shape a =
     (if length a = fst shape * snd shape then Some (rows_of (fst shape) (snd shape) a) else None)"

definition subtract :: "real list list \<Rightarrow> real list list \<Rightarrow> real list list" where
  "subtract a b = map2 (\<lambda>ra rb. map2 (\<lambda>x y. x - y) ra rb) a b"

definition temp_map :: "thermal_input \<Rightarrow> real list list option" where
  "temp_map i =
     (case index_array (pore_temperature i) (internal i) of
        None \<Rightarrow> None
      | Some sim \<Rightarrow> reshape divs sim)"

definition soln :: "thermal_input \<Rightarrow> real list list option" where
  "soln i =
     (case index_array (map (\<lambda>(X, Y). soln_at X Y) (pore_coords i)) (internal i) of
        None \<Rightarrow> None
      | Some a \<Rightarrow> reshape divs a)"

definition diff :: "thermal_input \<Rightarrow> real list list option" where
  "diff i =
     (case (soln i, temp_map i) of
        (Some s, Some t) \<Rightarrow> Some (subtract s t)
      | _ \<Rightarrow> None)"

text \<open>The two numbers of the last cell, before they are rounded to five decimals.\<close>

definition error_report :: "thermal_input \<Rightarrow> (real \<times> real) option" where
  "error_report i =
     (case diff i of
        None \<Rightarrow> None
      | Some d \<Rightarrow> Some (Min (set (concat d)), Max (set (concat d))))"

text \<open>
  The difference taken the other way round: the analytical solution subtracted from the
  simulated temperature map.
\<close>

definition claimed_diff :: "thermal_input \<Rightarrow> real list list option" where
  "claimed_diff i =
     (case (soln i, temp_map i) of
        (Some s, Some t) \<Rightarrow> Some (subtract t s)
      | _ \<Rightarrow> None)"

section \<open>Derived notions and sample runs\<close>


text \<open>The names of the steps before the tests.\<close>

definition steps_before_tests :: "string \<times> string \<Rightarrow> string list" where
  "steps_before_tests m =
     [''actions/checkout@v2'', ''Set up Python '' @ fst m, ''Cache conda'', ''Set up conda'',
      ''Install dependencies (conda)'']"

text \<open>Pushes to a branch: an ordinary one, and one whose message has the marker in capitals.\<close>

definition all_ok :: "string \<Rightarrow> bool" where
  "all_ok n = True"

definition matrix_entry :: "string \<times> string" where
  "matrix_entry = (''3.7'', ''ubuntu-latest'')"

definition empty_cache :: cache_store where
  "empty_cache = Map.empty"

definition push_plain :: ci_input where
  "push_plain =
     \<lparr>in_ref = ''refs/heads/dev'', in_message = Some ''Fix typo in docs'',
      in_hash = ''0f3a'', in_needed = [''numpy'', ''scipy''], in_cmd_ok = all_ok\<rparr>"

definition push_upper_case :: ci_input where
  "push_upper_case = push_plain\<lparr>in_message := Some ''Fix typo in docs [CI SKIP]''\<rparr>"

text \<open>
  Pushes of a tag. The repository has the tags \<^verbatim>\<open>v1.0\<close> and \<^verbatim>\<open>v2.0\<close>, on which
  the version order is the order of the bytes, and the release branch is at 2.0. In the
  first push the tag is \<^verbatim>\<open>v2.0\<close>; in the second it is the older \<^verbatim>\<open>v1.0\<close>; in
  the third the release branch is at 1.9; in the fourth the index holds the files of 2.0
  already.
\<close>

definition bytewise_le :: "string \<Rightarrow> string \<Rightarrow> bool" where
  "bytewise_le a b = (a \<le> b)"

definition release_push :: deploy_input where
  "release_push =
     \<lparr>push_ref = ''refs/tags/v2.0'', remote_tags = [''v1.0'', ''v2.0''],
      tree_version = [''release'' \<mapsto> ''2.0'', ''refs/tags/v1.0'' \<mapsto> ''1.0'',
                      ''refs/tags/v2.0'' \<mapsto> ''2.0''],
      version_le = bytewise_le, cmd_ok = all_ok,
      pypi_files = [(Sdist, ''1.0''), (Bdist_wheel, ''1.0'')]\<rparr>"

definition old_tag_push :: deploy_input where
  "old_tag_push = release_push\<lparr>push_ref := ''refs/tags/v1.0''\<rparr>"

definition mismatch_push :: deploy_input where
  "mismatch_push = release_push\<lparr>tree_version := [''release'' \<mapsto> ''1.9'']\<rparr>"

definition repeated_push :: deploy_input where
  "repeated_push = release_push\<lparr>pypi_files := [(Sdist, ''2.0''), (Bdist_wheel, ''2.0'')]\<rparr>"

text \<open>
  A push of a tag whose name is a valid ref name and reads as shell text: it has no blank,
  and \<^verbatim>\<open>${IFS}\<close> where a command needs one.
\<close>

definition crafted_tag :: string where
  "crafted_tag = ''x;git${IFS}push${IFS}--delete${IFS}origin${IFS}v1.0''"

definition crafted_push :: deploy_input where
  "crafted_push =
     release_push\<lparr>push_ref := ''refs/tags/'' @ crafted_tag,
                   remote_tags := [''v1.0'', ''v2.0'', crafted_tag]\<rparr>"

text \<open>
  The names that hold nothing of the shell's grammar: letters, digits, and the dot, the
  underscore, the hyphen and the slash.
\<close>

definition plain_chars :: string where
  "plain_chars =
     ''abcdefghijklmnopqrstuvwxyz'' @ ''ABCDEFGHIJKLMNOPQRSTUVWXYZ'' @ ''0123456789'' @ ''._-/''"

definition plain_name :: "string \<Rightarrow> bool" where
  "plain_name r = list_all (\<lambda>c. c \<in> set plain_chars) r"

text \<open>The names of the steps before the publishing step whose commands may fail.\<close>

definition steps_before_publish :: "string list" where
  "steps_before_publish =
     [''actions/checkout@v2'', ''Set up Python'', ''Set env variables'',
      ''Install dependencies'', ''Build distribution'']"

text \<open>
  The analytical value minus the simulated one at a pore, and the report that the cells
  would print if the difference were taken the other way round.
\<close>

definition error_at :: "thermal_input \<Rightarrow> nat \<Rightarrow> real" where
  "error_at i j = (case pore_coords i ! j of (X, Y) \<Rightarrow> soln_at X Y) - pore_temperature i ! j"

definition claimed_error_report :: "thermal_input \<Rightarrow> (real \<times> real) option" where
  "claimed_error_report i =
     (case claimed_diff i of
        None \<Rightarrow> None
      | Some d \<Rightarrow> Some (Min (set (concat d)), Max (set (concat d))))"

text \<open>
  A network of 500 internal pores that all sit at the origin, where the analytical solution
  is 50, with a simulated temperature of 51 everywhere.
\<close>

definition flat_input :: thermal_input where
  "flat_input =
     \<lparr>pore_coords = replicate 500 (0, 0), internal = [0..<500],
      pore_temperature = replicate 500 51\<rparr>"

section \<open>Properties of the Examples workflow\<close>

lemma lower_ci_min: "map to_lower ''ci min'' = ''ci min''"
  by (simp add: to_lower_def)

lemma lower_ci_skip: "map to_lower ''ci skip'' = ''ci skip''"
  by (simp add: to_lower_def)

lemma build_if_iff:
  "build_if c \<longleftrightarrow>
     \<not> sublist ''ci min'' (map to_lower (to_string (head_commit_message c))) \<and>
     \<not> sublist ''ci skip'' (map to_lower (to_string (head_commit_message c)))"
  unfolding build_if_def gha_contains_def lower_ci_min lower_ci_skip ..

lemma run_build_skipped: "fst (run_build i m store) = None \<longleftrightarrow> \<not> build_if (ci_context i m)"
  by (simp add: run_build_def Let_def)

lemma plain_push_build_if: "build_if (ci_context push_plain m)"
  by (simp add: build_if_iff ci_context_def push_plain_def to_string_def to_lower_def sublist_code)

lemma plain_push_runs: "fst (run_build push_plain m store) \<noteq> None"
  by (simp add: run_build_skipped plain_push_build_if)

text \<open>
  C2, as the workflow has it. The job \<^verbatim>\<open>build\<close> runs if and only if the message of the
  head commit contains neither \<^verbatim>\<open>ci min\<close> nor \<^verbatim>\<open>ci skip\<close>, where the
  message is searched without regard to the case of its letters (a push without a head
  commit has the empty message). The cache and the matrix entry play no part.
\<close>

theorem build_runs_iff_no_marker_ignoring_case:
  "fst (run_build i m store) \<noteq> None \<longleftrightarrow>
     \<not> sublist ''ci min'' (map to_lower (to_string (in_message i))) \<and>
     \<not> sublist ''ci skip'' (map to_lower (to_string (in_message i)))"
  by (simp add: run_build_skipped build_if_iff ci_context_def)

text \<open>The plain push runs the job.\<close>

theorem build_runs_on_plain_push:
  "fst (run_build push_plain matrix_entry empty_cache) \<noteq> None"
  using build_runs_iff_no_marker_ignoring_case [of push_plain matrix_entry empty_cache]
  by (simp add: push_plain_def to_string_def to_lower_def sublist_code)

text \<open>
  C2 as it is worded fails. The message \<^verbatim>\<open>Fix typo in docs [CI SKIP]\<close> contains
  neither \<^verbatim>\<open>ci min\<close> nor \<^verbatim>\<open>ci skip\<close> as a substring, and the job is skipped.
\<close>

theorem build_skipped_on_upper_case_marker:
  "fst (run_build push_upper_case matrix_entry empty_cache) = None \<and>
   \<not> sublist ''ci min'' (to_string (in_message push_upper_case)) \<and>
   \<not> sublist ''ci skip'' (to_string (in_message push_upper_case))"
  by (simp add: run_build_skipped build_if_iff ci_context_def push_upper_case_def push_plain_def
      to_string_def to_lower_def sublist_code)

lemma install_commands:
  "sh_commands (yaml_literal install_script) =
     [[''conda'', ''install'', ''--file'', ''requirements/conda_requirements.txt''],
      [''conda'', ''install'', ''--file'', ''requirements/test_requirements.txt''],
      [''conda'', ''install'', ''pyamg''],
      [''pip'', ''install'', ''-e'', ''.''],
      [''conda'', ''install'', ''porespy'']]"
  by (simp add: sh_commands_def yaml_literal_def install_script_def end_word_def end_command_def)

lemma test_commands:
  "sh_commands (yaml_fold test_script) =
     [[''pytest'', ''--nbval'', ''examples/'',
       ''--ignore=examples/paper_recreations/Blunt et al. (2013)'',
       ''--ignore=examples/paper_recreations/Wu et al. (2010)'']]"
  by (simp add: sh_commands_def yaml_fold_def test_script_def end_word_def end_command_def)

lemma matrix_jobs_eq: "matrix_jobs = [(''3.7'', ''ubuntu-latest'')]"
  by (simp add: matrix_jobs_def matrix_python_version_def matrix_operating_system_def)

lemma run_build_all_ok:
  assumes ok: "\<forall>n \<in> set (steps_before_tests m). in_cmd_ok i n"
    and r: "fst (run_build i m store) = Some r"
  shows "setup_python (run_state r) = Some (fst m) \<and> conda_python (run_state r) = Some (fst m) \<and>
         shell_log (run_state r) =
           sh_commands (yaml_literal install_script) @ sh_commands (yaml_fold test_script)"
proof -
  from r have "r = run_steps ci_ctx (examples_steps i m store) (start_job (ci_start i m))"
    by (simp add: run_build_def Let_def split: if_splits)
  with ok show ?thesis
    by (simp add: examples_steps_def start_job_def ci_start_def ci_context_def cache_restore_def
        steps_before_tests_def split: option.splits)
qed

text \<open>
  C4. The matrix has the single entry Python 3.7 on \<^verbatim>\<open>ubuntu-latest\<close>. In every run
  of the job whose set-up and install steps succeed, Python 3.7 is what
  \<^verbatim>\<open>setup-python\<close> and conda are given, the commands run in this order: the two
  \<^verbatim>\<open>conda install --file requirements/...\<close>, \<^verbatim>\<open>conda install pyamg\<close>,
  \<^verbatim>\<open>pip install -e .\<close>, \<^verbatim>\<open>conda install porespy\<close>, and then the tests as one
  command, \<^verbatim>\<open>pytest --nbval examples/\<close>, whose \<^verbatim>\<open>--ignore=\<close> arguments name
  exactly two directories, \<^verbatim>\<open>examples/paper_recreations/Blunt et al. (2013)\<close> and
  \<^verbatim>\<open>examples/paper_recreations/Wu et al. (2010)\<close>.
\<close>

theorem examples_job_environment_and_tests:
  assumes "m \<in> set matrix_jobs"
    and "fst (run_build i m store) = Some r"
    and "\<forall>n \<in> set (steps_before_tests m). in_cmd_ok i n"
  shows "m = (''3.7'', ''ubuntu-latest'') \<and>
         setup_python (run_state r) = Some ''3.7'' \<and>
         conda_python (run_state r) = Some ''3.7'' \<and>
         shell_log (run_state r) =
           [[''conda'', ''install'', ''--file'', ''requirements/conda_requirements.txt''],
            [''conda'', ''install'', ''--file'', ''requirements/test_requirements.txt''],
            [''conda'', ''install'', ''pyamg''],
            [''pip'', ''install'', ''-e'', ''.''],
            [''conda'', ''install'', ''porespy''],
            [''pytest'', ''--nbval'', ''examples/'',
             ''--ignore=examples/paper_recreations/Blunt et al. (2013)'',
             ''--ignore=examples/paper_recreations/Wu et al. (2010)'']] \<and>
         pytest_ignored (last (shell_log (run_state r))) =
           [''examples/paper_recreations/Blunt et al. (2013)'',
            ''examples/paper_recreations/Wu et al. (2010)'']"
proof -
  from assms(1) have m: "m = (''3.7'', ''ubuntu-latest'')"
    by (simp add: matrix_jobs_eq)
  have log: "shell_log (run_state r) =
      sh_commands (yaml_literal install_script) @ sh_commands (yaml_fold test_script)"
    and py: "setup_python (run_state r) = Some (fst m)" "conda_python (run_state r) = Some (fst m)"
    using run_build_all_ok [OF assms(3) assms(2)] by simp_all
  show ?thesis
    using m py by (simp add: log install_commands test_commands pytest_ignored_def)
qed

text \<open>The plain push: Python 3.7, six commands, and the two ignored directories.\<close>

theorem examples_job_on_plain_push:
  "matrix_entry \<in> set matrix_jobs \<and>
   (\<exists>r. fst (run_build push_plain matrix_entry empty_cache) = Some r \<and>
        setup_python (run_state r) = Some ''3.7'' \<and>
        length (shell_log (run_state r)) = 6 \<and>
        length (pytest_ignored (last (shell_log (run_state r)))) = 2)"
proof -
  have m: "matrix_entry \<in> set matrix_jobs"
    by (simp add: matrix_entry_def matrix_jobs_eq)
  have ok: "\<forall>n \<in> set (steps_before_tests matrix_entry). in_cmd_ok push_plain n"
    by (simp add: push_plain_def all_ok_def)
  obtain r where r: "fst (run_build push_plain matrix_entry empty_cache) = Some r"
    using plain_push_runs by blast
  note job = examples_job_environment_and_tests [OF m r ok]
  have py: "setup_python (run_state r) = Some ''3.7''"
    by (rule job [THEN conjunct2, THEN conjunct1])
  have "length (shell_log (run_state r)) = 6"
    by (simp add: job [THEN conjunct2, THEN conjunct2, THEN conjunct2, THEN conjunct1])
  moreover have "length (pytest_ignored (last (shell_log (run_state r)))) = 2"
    by (simp only: job [THEN conjunct2, THEN conjunct2, THEN conjunct2, THEN conjunct2]) simp
  ultimately show ?thesis
    using m r py by blast
qed

lemma ci_ctx_cache_restore [simp]: "ci_ctx (cache_restore store h s) = ci_ctx s"
  by (simp add: cache_restore_def split: option.splits)











section \<open>Properties of the deploy workflow\<close>

subsection \<open>Steps in general\<close>

lemma run_steps_append: "run_steps cx (ps @ qs) r = run_steps cx qs (run_steps cx ps r)"
  by (induction ps arbitrary: r) (simp_all split: prod.splits)

lemma run_steps_executed:
  "set (run_executed (run_steps cx ps r)) \<subseteq> set (run_executed r) \<union> set (map step_name ps)"
proof (induction ps arbitrary: r)
  case Nil
  show ?case by simp
next
  case (Cons p ps)
  show ?case
  proof (cases "run_ok r \<and> (case step_if p of None \<Rightarrow> True | Some c \<Rightarrow> c (cx (run_state r)))")
    case True
    obtain s' b where sb: "step_run p (run_state r) = (s', b)"
      by (cases "step_run p (run_state r)")
    let ?r = "\<lparr>run_state = s', run_ok = b, run_executed = run_executed r @ [step_name p]\<rparr>"
    have "run_steps cx (p # ps) r = run_steps cx ps ?r"
      using True sb by simp
    with Cons [of ?r] show ?thesis by auto
  next
    case False
    then have "run_steps cx (p # ps) r = run_steps cx ps r"
      by (simp only: run_steps.simps if_False)
    with Cons [of r] show ?thesis by auto
  qed
qed

lemma run_steps_preserves:
  assumes "list_all (\<lambda>p. \<forall>s. f (fst (step_run p s)) = f s) ps"
  shows "f (run_state (run_steps cx ps r)) = f (run_state r)"
  using assms
proof (induction ps arbitrary: r)
  case Nil
  show ?case by simp
next
  case (Cons p ps)
  then have p: "\<forall>s. f (fst (step_run p s)) = f s"
    and ps: "list_all (\<lambda>p. \<forall>s. f (fst (step_run p s)) = f s) ps"
    by simp_all
  show ?case
  proof (cases "run_ok r \<and> (case step_if p of None \<Rightarrow> True | Some c \<Rightarrow> c (cx (run_state r)))")
    case True
    obtain s' b where sb: "step_run p (run_state r) = (s', b)"
      by (cases "step_run p (run_state r)")
    let ?r = "\<lparr>run_state = s', run_ok = b, run_executed = run_executed r @ [step_name p]\<rparr>"
    have "run_steps cx (p # ps) r = run_steps cx ps ?r"
      using True sb by simp
    moreover have "f s' = f (run_state r)"
      using p sb by (metis fst_conv)
    ultimately show ?thesis
      using Cons.IH [OF ps, of ?r] by simp
  next
    case False
    then have "run_steps cx (p # ps) r = run_steps cx ps r"
      by (simp only: run_steps.simps if_False)
    with Cons.IH [OF ps, of r] show ?thesis by simp
  qed
qed

subsection \<open>The run of the deploy job\<close>

lemma contains_false_false: "gha_contains ''false'' ''false''"
  by (simp add: gha_contains_def)

lemma contains_true_false: "\<not> gha_contains ''true'' ''false''"
  by (simp add: gha_contains_def to_lower_def sublist_code)

lemma startsWith_refs_tags: "gha_startsWith (''refs/tags/'' @ t) ''refs/tags''"
  by (simp add: gha_startsWith_def to_lower_def)

lemma run_deploy_ok:
  assumes v: "tree_version i ''release'' = Some v"
    and ok: "\<forall>n \<in> set steps_before_publish. cmd_ok i n"
  shows "run_deploy i =
     (let s = \<lparr>d_ctx = \<lparr>event_ref = push_ref i, head_commit_message = None,
                   ctx_env = [''TAG'' \<mapsto> gate_tag i, ''VER'' \<mapsto> v,
                     ''TAG_MISMATCH'' \<mapsto>
                       (if delete_all_char CHR ''v'' (gate_tag i) = v then ''false'' else ''true'')],
                   ctx_matrix = Map.empty, runner_os = ''Linux''\<rparr>,
                workspace = Some v, local_tags = remote_tags i,
                origin_tags = filter (\<lambda>t. t \<notin> set (tags_deleted i)) (remote_tags i),
                dist_files = [(Sdist, v), (Bdist_wheel, v)], pypi = pypi_files i\<rparr>;
          ex = [''actions/checkout@v2'', ''Set up Python'', ''Set env variables'',
                ''Set env variables (for tag mismatch)'', ''Install dependencies'',
                ''Build distribution'']
      in if gha_startsWith (push_ref i) ''refs/tags'' \<and> delete_all_char CHR ''v'' (gate_tag i) = v
         then (case pypi_publish i publish_with s of (s', b) \<Rightarrow>
                 \<lparr>run_state = s', run_ok = b, run_executed = ex @ [''Publish distribution to PyPI'']\<rparr>)
         else \<lparr>run_state = s, run_ok = True, run_executed = ex\<rparr>)"
  using v ok
  by (simp add: run_deploy_def deploy_steps_def start_job_def deploy_start_def
      actions_checkout_def checkout_with_def set_env_variables_def set_tag_mismatch_def
      install_dependencies_def tags_deleted_def
      build_distribution_def set_env_def get_env_def to_string_def runner_os_of_def
      publish_if_def contains_false_false contains_true_false gate_tag_def Let_def
      steps_before_publish_def)

lemma pypi_publish_keeps:
  assumes "pypi_publish i wth s = (s', b)"
  shows "d_ctx s' = d_ctx s \<and> dist_files s' = dist_files s \<and> origin_tags s' = origin_tags s"
  using assms by (auto simp add: pypi_publish_def split: prod.splits if_splits)

lemma deploy_env:
  assumes v: "tree_version i ''release'' = Some v"
    and ok: "\<forall>n \<in> set steps_before_publish. cmd_ok i n"
  shows "ctx_env (d_ctx (run_state (run_deploy i))) =
           [''TAG'' \<mapsto> gate_tag i, ''VER'' \<mapsto> v,
            ''TAG_MISMATCH'' \<mapsto>
              (if delete_all_char CHR ''v'' (gate_tag i) = v then ''false'' else ''true'')]"
    and "dist_files (run_state (run_deploy i)) = [(Sdist, v), (Bdist_wheel, v)]"
    and "''Build distribution'' \<in> set (run_executed (run_deploy i))"
    and "''Publish distribution to PyPI'' \<in> set (run_executed (run_deploy i)) \<longleftrightarrow>
           gha_startsWith (push_ref i) ''refs/tags'' \<and> delete_all_char CHR ''v'' (gate_tag i) = v"
    and "delete_all_char CHR ''v'' (gate_tag i) \<noteq> v \<Longrightarrow>
           run_ok (run_deploy i) \<and> pypi (run_state (run_deploy i)) = pypi_files i"
  unfolding run_deploy_ok [OF v ok] Let_def
  by (auto split: prod.splits dest!: pypi_publish_keeps)

lemma set_env_keeps [simp]:
  "origin_tags (set_env n v s) = origin_tags s" "pypi (set_env n v s) = pypi s"
  "dist_files (set_env n v s) = dist_files s" "workspace (set_env n v s) = workspace s"
  "local_tags (set_env n v s) = local_tags s"
  by (simp_all add: set_env_def)

lemma deploy_step_names:
  "map step_name (deploy_steps i) =
     [''actions/checkout@v2'', ''Set up Python'', ''Set env variables'',
      ''Set env variables (for tag mismatch)'', ''Install dependencies'',
      ''Build distribution'', ''Publish distribution to PyPI'']"
  by (simp add: deploy_steps_def)

subsection \<open>The version sort\<close>







subsection \<open>Uploading with twine\<close>

lemma twine_upload_skip:
  "snd (twine_upload True fs idx) \<and>
   set (fst (twine_upload True fs idx)) = set idx \<union> set fs \<and>
   (set fs \<subseteq> set idx \<longrightarrow> fst (twine_upload True fs idx) = idx)"
  by (induction fs arbitrary: idx) auto

lemma twine_upload_no_skip:
  assumes "f \<in> set fs" and "f \<in> set idx"
  shows "\<not> snd (twine_upload False fs idx)"
  using assms by (induction fs arbitrary: idx) auto

lemma skip_existing_is_set: "skip_existing_input publish_with"
  by (simp add: skip_existing_input_def publish_with_def to_lower_def)

subsection \<open>The gate of the publishing step\<close>

lemma contains_true_true: "gha_contains ''true'' ''true''"
  by (simp add: gha_contains_def)


lemma sample_gate_tag:
  "gate_tag release_push = ''v2.0''" "gate_tag old_tag_push = ''v2.0''"
  "gate_tag mismatch_push = ''v2.0''" "gate_tag repeated_push = ''v2.0''"
  by (simp_all add: gate_tag_def release_push_def old_tag_push_def mismatch_push_def
      repeated_push_def sort_V_def tail_1_def cmd_subst_def bytewise_le_def)

lemma sample_ok:
  "\<forall>n \<in> set steps_before_publish. cmd_ok release_push n"
  "\<forall>n \<in> set steps_before_publish. cmd_ok old_tag_push n"
  "\<forall>n \<in> set steps_before_publish. cmd_ok mismatch_push n"
  "\<forall>n \<in> set steps_before_publish. cmd_ok repeated_push n"
  by (simp_all add: release_push_def old_tag_push_def mismatch_push_def repeated_push_def
      all_ok_def)

lemma sample_release:
  "tree_version release_push ''release'' = Some ''2.0''"
  "tree_version old_tag_push ''release'' = Some ''2.0''"
  "tree_version mismatch_push ''release'' = Some ''1.9''"
  "tree_version repeated_push ''release'' = Some ''2.0''"
  by (simp_all add: release_push_def old_tag_push_def mismatch_push_def repeated_push_def)




subsection \<open>The pushed ref in the script of \<^verbatim>\<open>Install dependencies\<close>\<close>

lemma plain_char_not_special:
  assumes "c \<in> set plain_chars"
  shows "c \<noteq> CHR 0x5C" "c \<noteq> CHR 0x22" "c \<noteq> CHR 0x27" "c \<noteq> CHR '' ''" "c \<noteq> CHR 0x09"
    "c \<noteq> CHR 0x0A" "c \<noteq> CHR '';''" "c \<noteq> CHR ''#''" "c \<noteq> CHR ''$''" "CHR ''$'' \<noteq> c"
  using assms by (auto simp add: plain_chars_def)

lemma sh_lex_plain:
  assumes "plain_name r"
  shows "sh_lex Unquoted False 0 w started tok cmd (r @ rest) =
     (if r = [] then sh_lex Unquoted False 0 w started tok cmd rest
      else sh_lex Unquoted False 0 (w @ r) True True cmd rest)"
  using assms
proof (induction r arbitrary: w started tok)
  case Nil
  show ?case by simp
next
  case (Cons c r)
  from Cons.prems have c: "c \<in> set plain_chars" and r: "plain_name r"
    by (simp_all add: plain_name_def)
  have "sh_lex Unquoted False 0 w started tok cmd ((c # r) @ rest) =
      sh_lex Unquoted False 0 (w @ [c]) True True cmd (r @ rest)"
    by (simp add: plain_char_not_special [OF c])
  also have "\<dots> = sh_lex Unquoted False 0 (w @ c # r) True True cmd rest"
    by (simp add: Cons.IH [OF r])
  finally show ?case
    by simp
qed

lemma plain_ref_deletes_nothing:
  assumes "plain_name r"
  shows "concat (map git_push_deletes (sh_commands (install_dependencies_script r))) = []"
  by (simp add: sh_commands_def install_dependencies_script_def yaml_literal_def
      sh_lex_plain [OF assms] end_word_def end_command_def git_push_deletes_def)

lemma deploy_steps_keep_tags_of_plain_ref:
  "list_all
     (\<lambda>p. \<forall>s. (event_ref (d_ctx (fst (step_run p s))),
                if plain_name (event_ref (d_ctx (fst (step_run p s))))
                then origin_tags (fst (step_run p s)) else []) =
               (event_ref (d_ctx s), if plain_name (event_ref (d_ctx s)) then origin_tags s else []))
     (deploy_steps i)"
  by (simp add: deploy_steps_def actions_checkout_def set_env_variables_def
      set_tag_mismatch_def install_dependencies_def build_distribution_def pypi_publish_def
      set_env_def Let_def plain_ref_deletes_nothing split: option.splits prod.splits)

text \<open>
  A push whose ref is a plain name: the tags of the repository after the run are those
  before it, and the commented-out step is not among the steps that ran.
\<close>

lemma plain_ref_keeps_tags:
  assumes "plain_name (push_ref i)"
  shows "origin_tags (run_state (run_deploy i)) = remote_tags i"
    and "step_name commented_out_step \<notin> set (run_executed (run_deploy i))"
proof -
  let ?f = "\<lambda>s. (event_ref (d_ctx s), if plain_name (event_ref (d_ctx s)) then origin_tags s else [])"
  have eq: "?f (run_state (run_deploy i)) = ?f (run_state (start_job (deploy_start i)))"
    unfolding run_deploy_def
    by (rule run_steps_preserves [where f = ?f, OF deploy_steps_keep_tags_of_plain_ref])
  have start: "run_state (start_job (deploy_start i)) = deploy_start i"
    by (simp add: start_job_def)
  have ref: "event_ref (d_ctx (deploy_start i)) = push_ref i"
    and tags: "origin_tags (deploy_start i) = remote_tags i"
    by (simp_all add: deploy_start_def)
  from eq have "event_ref (d_ctx (run_state (run_deploy i))) = push_ref i"
    unfolding start ref by (rule Pair_inject)
  with eq assms show "origin_tags (run_state (run_deploy i)) = remote_tags i"
    unfolding start ref tags by simp
  have "set (run_executed (run_deploy i)) \<subseteq> set (map step_name (deploy_steps i))"
    using run_steps_executed [of d_ctx "deploy_steps i" "start_job (deploy_start i)"]
    by (simp add: run_deploy_def start_job_def)
  moreover have "step_name commented_out_step \<notin> set (map step_name (deploy_steps i))"
    by (simp add: deploy_step_names commented_out_step_def)
  ultimately show "step_name commented_out_step \<notin> set (run_executed (run_deploy i))"
    by blast
qed

text \<open>The push of \<^verbatim>\<open>v2.0\<close> is such a push.\<close>

lemma release_push_keeps_tags:
  "origin_tags (run_state (run_deploy release_push)) = [''v1.0'', ''v2.0'']"
proof -
  have "plain_name (push_ref release_push)"
    by (simp add: release_push_def plain_name_def plain_chars_def)
  from plain_ref_keeps_tags(1) [OF this] show ?thesis
    by (simp add: release_push_def)
qed

lemma crafted_push_facts:
  "tree_version crafted_push ''release'' = Some ''2.0''"
  "\<forall>n \<in> set steps_before_publish. cmd_ok crafted_push n"
  "gate_tag crafted_push = crafted_tag"
  "remote_tags crafted_push = [''v1.0'', ''v2.0'', crafted_tag]"
  by (simp_all add: crafted_push_def release_push_def all_ok_def gate_tag_def sort_V_def
      tail_1_def cmd_subst_def bytewise_le_def crafted_tag_def)

lemma crafted_push_commands:
  "sh_commands (install_dependencies_script (push_ref crafted_push)) =
     [[''python'', ''-m'', ''pip'', ''install'', ''--upgrade'', ''pip''],
      [''pip'', ''install'', ''setuptools'', ''wheel'', ''twine''],
      [''echo'', ''refs/tags/x''],
      [''git'', ''push'', ''--delete'', ''origin'', ''v1.0''],
      [''echo'', ''$TAG_MISMATCH'']]"
  by (simp add: crafted_push_def crafted_tag_def sh_commands_def install_dependencies_script_def
      yaml_literal_def end_word_def end_command_def)

lemma crafted_push_deletes: "tags_deleted crafted_push = [''v1.0'']"
  unfolding tags_deleted_def crafted_push_commands
  by (simp add: git_push_deletes_def tag_of_def)

text \<open>
  C3 fails on the push of a tag whose name reads as shell text. The tag
  \<^verbatim>\<open>x;git${IFS}push${IFS}--delete${IFS}origin${IFS}v1.0\<close> is pushed to a repository
  that has the tags \<^verbatim>\<open>v1.0\<close> and \<^verbatim>\<open>v2.0\<close>. The step
  \<^verbatim>\<open>Install dependencies\<close> has the ref in its script, where the line
  \<^verbatim>\<open>echo ${{ github.event.ref }}\<close> becomes the two commands
  \<^verbatim>\<open>echo refs/tags/x\<close> and \<^verbatim>\<open>git push --delete origin v1.0\<close>. The six steps
  before the publishing step run, the run succeeds, and after it the repository has lost
  the tag \<^verbatim>\<open>v1.0\<close>.
\<close>

theorem crafted_tag_push_deletes_a_tag:
  "push_ref crafted_push = ''refs/tags/x;git${IFS}push${IFS}--delete${IFS}origin${IFS}v1.0'' \<and>
   remote_tags crafted_push =
     [''v1.0'', ''v2.0'', ''x;git${IFS}push${IFS}--delete${IFS}origin${IFS}v1.0''] \<and>
   sh_commands (install_dependencies_script (push_ref crafted_push)) =
     [[''python'', ''-m'', ''pip'', ''install'', ''--upgrade'', ''pip''],
      [''pip'', ''install'', ''setuptools'', ''wheel'', ''twine''],
      [''echo'', ''refs/tags/x''],
      [''git'', ''push'', ''--delete'', ''origin'', ''v1.0''],
      [''echo'', ''$TAG_MISMATCH'']] \<and>
   run_executed (run_deploy crafted_push) =
     [''actions/checkout@v2'', ''Set up Python'', ''Set env variables'',
      ''Set env variables (for tag mismatch)'', ''Install dependencies'',
      ''Build distribution''] \<and>
   run_ok (run_deploy crafted_push) \<and>
   origin_tags (run_state (run_deploy crafted_push)) =
     [''v2.0'', ''x;git${IFS}push${IFS}--delete${IFS}origin${IFS}v1.0'']"
proof -
  have mismatch: "delete_all_char CHR ''v'' (gate_tag crafted_push) \<noteq> ''2.0''"
    by (simp add: crafted_push_facts(3) crafted_tag_def delete_all_char_def)
  have run: "run_executed (run_deploy crafted_push) =
       [''actions/checkout@v2'', ''Set up Python'', ''Set env variables'',
        ''Set env variables (for tag mismatch)'', ''Install dependencies'',
        ''Build distribution''] \<and>
     run_ok (run_deploy crafted_push) \<and>
     origin_tags (run_state (run_deploy crafted_push)) =
       filter (\<lambda>t. t \<notin> set (tags_deleted crafted_push)) (remote_tags crafted_push)"
    unfolding run_deploy_ok [OF crafted_push_facts(1,2)] Let_def
    using mismatch by simp
  have tags: "filter (\<lambda>t. t \<notin> set (tags_deleted crafted_push)) (remote_tags crafted_push) =
      [''v2.0'', crafted_tag]"
    by (simp add: crafted_push_deletes crafted_push_facts(4) crafted_tag_def)
  have ref: "push_ref crafted_push = ''refs/tags/'' @ crafted_tag"
    by (simp add: crafted_push_def)
  have run': "run_executed (run_deploy crafted_push) =
       [''actions/checkout@v2'', ''Set up Python'', ''Set env variables'',
        ''Set env variables (for tag mismatch)'', ''Install dependencies'',
        ''Build distribution''] \<and>
     run_ok (run_deploy crafted_push) \<and>
     origin_tags (run_state (run_deploy crafted_push)) = [''v2.0'', crafted_tag]"
    using run unfolding tags .
  show ?thesis
    using run' crafted_push_commands
    by (simp add: ref crafted_push_facts(4) crafted_tag_def)
qed

lemma pushed_tag_is_not_release: "''refs/tags/'' @ p \<noteq> ''release''"
  by simp





subsection \<open>Publishing\<close>

lemma deploy_steps_split:
  "deploy_steps i = take 6 (deploy_steps i) @
     [\<lparr>step_name = ''Publish distribution to PyPI'', step_if = Some publish_if,
       step_run = pypi_publish i publish_with\<rparr>]"
  by (simp add: deploy_steps_def)

lemma steps_to_build_keep_pypi:
  "list_all (\<lambda>p. \<forall>s. pypi (fst (step_run p s)) = pypi s) (take 6 (deploy_steps i))"
  by (simp add: deploy_steps_def actions_checkout_def set_env_variables_def
      set_tag_mismatch_def install_dependencies_def build_distribution_def Let_def
      split: option.splits)

lemma steps_to_build_names:
  "''Publish distribution to PyPI'' \<notin> set (map step_name (take 6 (deploy_steps i)))"
  by (simp add: deploy_steps_def)

lemma publish_executed:
  assumes "''Publish distribution to PyPI'' \<in> set (run_executed (run_deploy i))"
    and "cmd_ok i ''Publish distribution to PyPI''"
  shows "\<exists>s. pypi s = pypi_files i \<and>
           run_state (run_deploy i) =
             s\<lparr>pypi := fst (twine_upload (skip_existing_input publish_with) (dist_files s) (pypi s))\<rparr> \<and>
           run_ok (run_deploy i) =
             snd (twine_upload (skip_existing_input publish_with) (dist_files s) (pypi s))"
proof -
  let ?r = "run_steps d_ctx (take 6 (deploy_steps i)) (start_job (deploy_start i))"
  let ?p = "\<lparr>step_name = ''Publish distribution to PyPI'', step_if = Some publish_if,
       step_run = pypi_publish i publish_with\<rparr>"
  have run: "run_deploy i = run_steps d_ctx [?p] ?r"
    unfolding run_deploy_def by (subst deploy_steps_split) (simp only: run_steps_append)
  have before: "''Publish distribution to PyPI'' \<notin> set (run_executed ?r)"
    using run_steps_executed [of d_ctx "take 6 (deploy_steps i)" "start_job (deploy_start i)"]
      steps_to_build_names [of i]
    by (auto simp add: start_job_def)
  have pypi: "pypi (run_state ?r) = pypi_files i"
    using run_steps_preserves [OF steps_to_build_keep_pypi, of d_ctx i "start_job (deploy_start i)"]
    by (simp add: start_job_def deploy_start_def)
  have cond: "run_ok ?r \<and> publish_if (d_ctx (run_state ?r))"
  proof (rule ccontr)
    assume "\<not> (run_ok ?r \<and> publish_if (d_ctx (run_state ?r)))"
    then have "run_steps d_ctx [?p] ?r = ?r"
      by auto
    with assms(1) before run show False
      by simp
  qed
  obtain idx b where up: "twine_upload (skip_existing_input publish_with)
      (dist_files (run_state ?r)) (pypi (run_state ?r)) = (idx, b)"
    by (cases "twine_upload (skip_existing_input publish_with)
      (dist_files (run_state ?r)) (pypi (run_state ?r))")
  from cond assms(2) up
  have "run_state (run_deploy i) = (run_state ?r)\<lparr>pypi := idx\<rparr> \<and> run_ok (run_deploy i) = b"
    unfolding run by (simp add: pypi_publish_def)
  with up pypi show ?thesis
    by (intro exI [of _ "run_state ?r"]) simp
qed

text \<open>
  C8. The publishing step is given \<^verbatim>\<open>skip_existing: true\<close>. When the step runs and
  the upload itself goes through, the step succeeds, the index then holds what it held and
  the files built, and when it held all the files built it is left as it was.
\<close>

theorem publish_skips_existing_files:
  assumes "''Publish distribution to PyPI'' \<in> set (run_executed (run_deploy i))"
    and "cmd_ok i ''Publish distribution to PyPI''"
  shows "map_of publish_with ''skip_existing'' = Some ''true'' \<and>
         run_ok (run_deploy i) \<and>
         set (pypi (run_state (run_deploy i))) =
           set (pypi_files i) \<union> set (dist_files (run_state (run_deploy i))) \<and>
         (set (dist_files (run_state (run_deploy i))) \<subseteq> set (pypi_files i) \<longrightarrow>
            pypi (run_state (run_deploy i)) = pypi_files i)"
proof -
  from publish_executed [OF assms] obtain s where s: "pypi s = pypi_files i"
    and st: "run_state (run_deploy i) =
       s\<lparr>pypi := fst (twine_upload (skip_existing_input publish_with) (dist_files s) (pypi s))\<rparr>"
    and ok: "run_ok (run_deploy i) =
       snd (twine_upload (skip_existing_input publish_with) (dist_files s) (pypi s))"
    by blast
  note up = twine_upload_skip [of "dist_files s" "pypi s"]
  have w: "map_of publish_with ''skip_existing'' = Some ''true''"
    by (simp add: publish_with_def)
  from up ok have "run_ok (run_deploy i)"
    by (simp add: skip_existing_is_set)
  moreover from up s have "set (pypi (run_state (run_deploy i))) =
      set (pypi_files i) \<union> set (dist_files (run_state (run_deploy i)))"
    by (simp add: st skip_existing_is_set)
  moreover from up s have "set (dist_files (run_state (run_deploy i))) \<subseteq> set (pypi_files i) \<longrightarrow>
      pypi (run_state (run_deploy i)) = pypi_files i"
    by (simp add: st skip_existing_is_set)
  ultimately show ?thesis
    using w by blast
qed

text \<open>The push of \<^verbatim>\<open>v2.0\<close> when the index has the two files of 2.0 already.\<close>

theorem repeated_push_publishes_nothing_new:
  "run_ok (run_deploy repeated_push) \<and>
   pypi (run_state (run_deploy repeated_push)) = [(Sdist, ''2.0''), (Bdist_wheel, ''2.0'')]"
proof -
  note env = deploy_env [OF sample_release(4) sample_ok(4)]
  have "gha_startsWith (push_ref repeated_push) ''refs/tags''"
    using startsWith_refs_tags [of "''v2.0''"] by (simp add: repeated_push_def release_push_def)
  then have ex: "''Publish distribution to PyPI'' \<in> set (run_executed (run_deploy repeated_push))"
    unfolding env(4) by (simp add: sample_gate_tag delete_all_char_def)
  have ok: "cmd_ok repeated_push ''Publish distribution to PyPI''"
    by (simp add: repeated_push_def release_push_def all_ok_def)
  have files: "pypi_files repeated_push = [(Sdist, ''2.0''), (Bdist_wheel, ''2.0'')]"
    by (simp add: repeated_push_def)
  have sub: "set (dist_files (run_state (run_deploy repeated_push))) \<subseteq> set (pypi_files repeated_push)"
    unfolding env(2) files by simp
  note publish = publish_skips_existing_files [OF ex ok]
  have "run_ok (run_deploy repeated_push)"
    by (rule publish [THEN conjunct2, THEN conjunct1])
  moreover have "pypi (run_state (run_deploy repeated_push)) = [(Sdist, ''2.0''), (Bdist_wheel, ''2.0'')]"
    using publish [THEN conjunct2, THEN conjunct2, THEN conjunct2, rule_format, OF sub]
    by (simp only: files)
  ultimately show ?thesis
    by (rule conjI)
qed

section \<open>Properties of the thermal conduction notebook\<close>

lemma concat_rows_of: "length a = r * c \<Longrightarrow> concat (rows_of r c a) = a"
  by (induction r arbitrary: a) simp_all

lemma concat_map2_rows_of:
  assumes "length a = r * c" and "length b = r * c"
  shows "concat (map2 (\<lambda>ra rb. map2 f ra rb) (rows_of r c a) (rows_of r c b)) = map2 f a b"
  using assms
proof (induction r arbitrary: a b)
  case 0
  then show ?case by simp
next
  case (Suc r)
  have "map2 f (take c a) (take c b) = take c (map2 f a b)"
    by (simp add: take_map take_zip)
  moreover have "concat (map2 (\<lambda>ra rb. map2 f ra rb) (rows_of r c (drop c a)) (rows_of r c (drop c b)))
      = drop c (map2 f a b)"
    using Suc.IH [of "drop c a" "drop c b"] Suc.prems by (simp add: drop_map drop_zip)
  ultimately show ?case
    by simp
qed

lemma map2_map_same: "map2 f (map g xs) (map h xs) = map (\<lambda>x. f (g x) (h x)) xs"
  by (induction xs) simp_all

lemma soln_Some:
  "soln i = (if (\<forall>j \<in> set (internal i). j < length (pore_coords i)) \<and> length (internal i) = 10 * 50
     then Some (rows_of 10 50 (map (\<lambda>j. case pore_coords i ! j of (X, Y) \<Rightarrow> soln_at X Y) (internal i)))
     else None)"
proof (cases "(\<forall>j \<in> set (internal i). j < length (pore_coords i)) \<and> length (internal i) = 10 * 50")
  case True
  then have m: "map ((!) (map (\<lambda>(X, Y). soln_at X Y) (pore_coords i))) (internal i) =
      map (\<lambda>j. case pore_coords i ! j of (X, Y) \<Rightarrow> soln_at X Y) (internal i)"
    by (intro map_cong) simp_all
  from True show ?thesis
    by (simp add: soln_def index_array_def reshape_def divs_def m)
next
  case False
  then show ?thesis
    by (auto simp add: soln_def index_array_def reshape_def divs_def)
qed

lemma temp_map_Some:
  "temp_map i = (if (\<forall>j \<in> set (internal i). j < length (pore_temperature i)) \<and> length (internal i) = 10 * 50
     then Some (rows_of 10 50 (map (\<lambda>j. pore_temperature i ! j) (internal i)))
     else None)"
  by (auto simp add: temp_map_def index_array_def reshape_def divs_def)

lemma concat_diff:
  assumes "(\<forall>j \<in> set (internal i). j < length (pore_coords i) \<and> j < length (pore_temperature i))"
    and "length (internal i) = 10 * 50"
  shows "\<exists>d. diff i = Some d \<and> concat d = map (error_at i) (internal i)"
    and "\<exists>d. claimed_diff i = Some d \<and> concat d = map (\<lambda>j. - error_at i j) (internal i)"
proof -
  let ?s = "map (\<lambda>j. case pore_coords i ! j of (X, Y) \<Rightarrow> soln_at X Y) (internal i)"
  let ?t = "map (\<lambda>j. pore_temperature i ! j) (internal i)"
  from assms have s: "soln i = Some (rows_of 10 50 ?s)" and t: "temp_map i = Some (rows_of 10 50 ?t)"
    by (simp_all add: soln_Some temp_map_Some)
  have len: "length ?s = 10 * 50" "length ?t = 10 * 50"
    using assms(2) by simp_all
  have "concat (subtract (rows_of 10 50 ?s) (rows_of 10 50 ?t)) = map (error_at i) (internal i)"
    unfolding subtract_def concat_map2_rows_of [OF len] map2_map_same
    by (simp add: error_at_def)
  then show "\<exists>d. diff i = Some d \<and> concat d = map (error_at i) (internal i)"
    by (simp add: diff_def s t)
  have "concat (subtract (rows_of 10 50 ?t) (rows_of 10 50 ?s)) = map (\<lambda>j. - error_at i j) (internal i)"
    unfolding subtract_def concat_map2_rows_of [OF len(2,1)] map2_map_same
    by (simp add: error_at_def)
  then show "\<exists>d. claimed_diff i = Some d \<and> concat d = map (\<lambda>j. - error_at i j) (internal i)"
    by (simp add: claimed_diff_def s t)
qed

lemma diff_None:
  assumes "\<not> ((\<forall>j \<in> set (internal i). j < length (pore_coords i) \<and> j < length (pore_temperature i)) \<and>
     length (internal i) = 10 * 50)"
  shows "diff i = None" and "claimed_diff i = None"
  using assms
  by (auto simp add: diff_def claimed_diff_def soln_Some temp_map_Some split: option.splits)

text \<open>
  C5, as the notebook has it. When the internal pores are 500 valid indices, the last cell
  reports the least and the greatest of the errors at the internal pores, the error at a
  pore being the analytical value \<^verbatim>\<open>30*sinh(pi*X/5)/sinh(pi/5)*sin(pi*Y/5) + 50\<close>
  minus the simulated temperature; otherwise a cell raises.
\<close>

theorem error_report_compares_with_analytical_solution:
  "error_report i =
     (if (\<forall>j \<in> set (internal i). j < length (pore_coords i) \<and> j < length (pore_temperature i)) \<and>
         length (internal i) = 10 * 50
      then Some (Min (error_at i ` set (internal i)), Max (error_at i ` set (internal i)))
      else None)"
proof (cases "(\<forall>j \<in> set (internal i). j < length (pore_coords i) \<and> j < length (pore_temperature i)) \<and>
         length (internal i) = 10 * 50")
  case True
  then obtain d where "diff i = Some d" and "concat d = map (error_at i) (internal i)"
    using concat_diff(1) [of i] by blast
  with True show ?thesis
    by (simp add: error_report_def)
next
  case False
  then show ?thesis
    using diff_None(1) [OF False] by (simp add: error_report_def)
qed

lemma claimed_error_report_eq:
  assumes "(\<forall>j \<in> set (internal i). j < length (pore_coords i) \<and> j < length (pore_temperature i))"
    and "length (internal i) = 10 * 50"
  shows "claimed_error_report i =
     Some (Min ((\<lambda>j. - error_at i j) ` set (internal i)), Max ((\<lambda>j. - error_at i j) ` set (internal i)))"
proof -
  obtain d where "claimed_diff i = Some d" and "concat d = map (\<lambda>j. - error_at i j) (internal i)"
    using concat_diff(2) [OF assms] by blast
  then show ?thesis
    by (simp add: claimed_error_report_def)
qed

lemma flat_input_valid:
  "\<forall>j \<in> set (internal flat_input). j < length (pore_coords flat_input) \<and> j < length (pore_temperature flat_input)"
  "length (internal flat_input) = 10 * 50"
  by (simp_all add: flat_input_def)

lemma flat_input_error: "j \<in> set (internal flat_input) \<Longrightarrow> error_at flat_input j = - 1"
  by (simp add: flat_input_def error_at_def soln_at_def)

lemma flat_input_images:
  "error_at flat_input ` set (internal flat_input) = {- 1}"
  "(\<lambda>j. - error_at flat_input j) ` set (internal flat_input) = {1}"
proof -
  have ne: "0 \<in> set (internal flat_input)"
    by (simp add: flat_input_def)
  show "error_at flat_input ` set (internal flat_input) = {- 1}"
    using ne flat_input_error by (auto simp add: image_iff)
  show "(\<lambda>j. - error_at flat_input j) ` set (internal flat_input) = {1}"
    using ne flat_input_error by (auto simp add: image_iff)
qed

text \<open>On the flat network the report is \<open>-1\<close> twice.\<close>

theorem flat_input_report: "error_report flat_input = Some (- 1, - 1)"
  using error_report_compares_with_analytical_solution [of flat_input] flat_input_valid
  by (simp add: flat_input_images)

text \<open>
  C5 as it is worded fails: the simulated map is subtracted from the analytical solution,
  not the other way round. On the flat network, where the simulation is one degree above
  the solution, the cells report \<open>-1\<close> and \<open>-1\<close>; with the difference taken the
  other way round they would report \<open>1\<close> and \<open>1\<close>.
\<close>

theorem difference_is_soln_minus_simulation:
  "error_report flat_input = Some (- 1, - 1) \<and> claimed_error_report flat_input = Some (1, 1)"
proof -
  have "error_report flat_input = Some (- 1, - 1)"
    using concat_diff(1) [OF flat_input_valid]
    by (auto simp add: error_report_def flat_input_images)
  moreover have "claimed_error_report flat_input = Some (1, 1)"
    by (simp add: claimed_error_report_eq [OF flat_input_valid] flat_input_images)
  ultimately show ?thesis by simp
qed

end
